theory Spec2Isabelle
  imports Complex_Main
begin

section \<open>Guess evaluation\<close>

text \<open>
  The game board renders every recorded guess through the component \<open>GuessRow\<close>
  (\<open>import { GuessRow } from "./GuessRow"\<close>, used as
  \<open><GuessRow guess={guess} targetWord={targetWord} />\<close>). The file \<open>GuessRow\<close> itself is
  not among the sources, only its import and its call are, so the evaluation is modelled from
  the specification (section 4.2).
\<close>

text \<open>
  Modelled from the spec: the Letter Classification that the missing \<open>GuessRow\<close> computes
  for each character of a guess, "one of {Correct, Present, Absent}".
\<close>

datatype classification = Correct | Present | Absent

text \<open>
  Modelled from the spec: the first pass of \<open>GuessRow\<close>'s evaluation, which is missing from
  the sources. "For each position i, if guess[i] == secret[i], mark Correct and decrement an
  available-count for that letter drawn from secret's multiset of letters." The result is
  the list of marks (\<open>True\<close> for Correct) and the available counts after the pass.
\<close>

fun first_pass :: "string \<Rightarrow> string \<Rightarrow> (char \<Rightarrow> nat) \<Rightarrow> bool list \<times> (char \<Rightarrow> nat)" where
  "first_pass (g # gs) (s # ss) avail =
     (if g = s
      then (case first_pass gs ss (avail(g := avail g - 1)) of
              (marks, avail') \<Rightarrow> (True # marks, avail'))
      else (case first_pass gs ss avail of
              (marks, avail') \<Rightarrow> (False # marks, avail')))"
| "first_pass _ _ avail = ([], avail)"

text \<open>
  Modelled from the spec: the second pass of \<open>GuessRow\<close>'s evaluation. "For each position i
  not already marked Correct, if guess[i] is a letter with remaining available count > 0 in
  secret's multiset (after pass 1 decrements), mark Present and decrement that letter's
  available count; otherwise mark Absent."
\<close>

fun second_pass :: "string \<Rightarrow> bool list \<Rightarrow> (char \<Rightarrow> nat) \<Rightarrow> classification list" where
  "second_pass (g # gs) (m # marks) avail =
     (if m then Correct # second_pass gs marks avail
      else if avail g > 0 then Present # second_pass gs marks (avail(g := avail g - 1))
      else Absent # second_pass gs marks avail)"
| "second_pass _ _ avail = []"

text \<open>
  Modelled from the spec: \<open>evaluate(guess, secret)\<close>, the contract of the missing
  \<open>GuessRow\<close>. The available counts start as the number of occurrences of every letter in
  the secret.
\<close>

definition evaluate :: "string \<Rightarrow> string \<Rightarrow> classification list" where
  "evaluate guess secret =
     (case first_pass guess secret (count_list secret) of
        (marks, avail) \<Rightarrow> second_pass guess marks avail)"

text \<open>
  The number of decrements of letter \<open>L\<close>'s available count that have happened when the
  second pass reaches position \<open>i\<close>: one for every position marked Correct that holds
  \<open>L\<close> (the whole first pass has run), and one for every position before \<open>i\<close> that holds
  \<open>L\<close> and was marked Present. The positions are read as the pairs (letter, mark).
\<close>

definition decrements_before :: "string \<Rightarrow> string \<Rightarrow> nat \<Rightarrow> char \<Rightarrow> nat" where
  "decrements_before guess secret i L =
     length (filter (\<lambda>(c, k). c = L \<and> k = Correct) (zip guess (evaluate guess secret)))
   + length (filter (\<lambda>(c, k). c = L \<and> k = Present) (take i (zip guess (evaluate guess secret))))"

text \<open>The number of positions of a guess that hold letter \<open>L\<close> and carry one of the given marks.\<close>

definition marked_count :: "string \<Rightarrow> string \<Rightarrow> char \<Rightarrow> classification set \<Rightarrow> nat" where
  "marked_count guess secret L ks =
     length (filter (\<lambda>(c, k). c = L \<and> k \<in> ks) (zip guess (evaluate guess secret)))"

section \<open>The game board\<close>

text \<open>
  The sources hold four versions of the component \<open>GameBoard\<close>:
  \<^item> \<open>src/app/extensions/components/GameBoard.tsx\<close>, which calls \<open>hubspot.fetch\<close> itself and
    falls back to the word REACT (names without a suffix below);
  \<^item> the first component of \<open>part_001\<close>, which receives \<open>getRandomWord\<close> from its parent and
    falls back to the word REACT (suffix \<open>_default\<close>);
  \<^item> the component of \<open>part_000\<close>, which sets no fallback word (suffix \<open>_retry\<close>);
  \<^item> the second component of \<open>part_001\<close>, which falls back to a random entry of
    \<open>FALLBACK_WORDS\<close> (suffix \<open>_offline\<close>).

  A JavaScript string is modelled as a \<open>string\<close>, one \<open>char\<close> for each code unit.
  \<open>String.prototype.toUpperCase\<close> is a built-in of the language, not code of the repository:
  every function that calls it takes it as the parameter \<open>toUpperCase\<close>, and the theorems
  hold whatever it computes.
\<close>

subsection \<open>State\<close>

text \<open>
  The argument of \<open>sendAlert\<close>. \<open>GameBoard.tsx\<close> passes \<open>{ message, type }\<close>, the other
  versions \<open>{ title, message, variant }\<close>; the field \<open>variant\<close> holds the value of \<open>type\<close>
  for the former.
\<close>

record alert =
  title :: "string option"
  message :: string
  variant :: string

text \<open>
  The five \<open>useState\<close> cells of the component, together with what the component does to its
  surroundings: \<open>pending\<close> counts the requests for a word that have been issued and have not
  settled yet, \<open>alerts\<close> lists the calls of \<open>sendAlert\<close>, oldest first.
\<close>

record game =
  currentGuess :: string
  guesses :: "string list"
  targetWord :: string
  isGameOver :: bool
  isLoading :: bool
  pending :: nat
  alerts :: "alert list"

definition initial :: "string \<Rightarrow> game" where
  "initial word = \<lparr>currentGuess = '''', guesses = [], targetWord = word, isGameOver = False,
                    isLoading = False, pending = 0, alerts = []\<rparr>"

definition sendAlert :: "alert \<Rightarrow> game \<Rightarrow> game" where
  "sendAlert a s = s\<lparr>alerts := alerts s @ [a]\<rparr>"

definition gameEnded :: "game \<Rightarrow> bool" where
  "gameEnded s = (isGameOver s \<or> length (guesses s) \<ge> 5)"

definition gameReady :: "game \<Rightarrow> bool" where
  "gameReady s = (targetWord s \<noteq> '''' \<and> \<not> isLoading s)"

text \<open>
  The Round Status of the specification is not stored; it is read off the state: Won when
  the game-over flag is set (only a winning guess sets it), Lost when five guesses are
  recorded without a win, InProgress otherwise.
\<close>

datatype round_status = InProgress | Won | Lost

definition roundStatus :: "game \<Rightarrow> round_status" where
  "roundStatus s = (if isGameOver s then Won else if length (guesses s) \<ge> 5 then Lost else InProgress)"

subsection \<open>Submitting a guess\<close>

text \<open>
  \<open>handleSubmitGuess\<close> of \<open>GameBoard.tsx\<close>. The congratulation ends in an emoji, which is
  not a character of \<open>string\<close>; the model's message stops before it.
\<close>

definition handleSubmitGuess :: "(string \<Rightarrow> string) \<Rightarrow> game \<Rightarrow> game" where
  "handleSubmitGuess toUpperCase s =
     (if length (currentGuess s) \<noteq> 5 then
        sendAlert \<lparr>title = None, message = ''Guess must be 5 letters!'', variant = ''danger''\<rparr> s
      else if length (guesses s) \<ge> 5 then
        sendAlert \<lparr>title = None, message = ''Game over! You've used all 5 guesses.'',
                   variant = ''danger''\<rparr> s
      else
        let upperGuess = toUpperCase (currentGuess s);
            s1 = s\<lparr>guesses := guesses s @ [upperGuess], currentGuess := ''''\<rparr>
        in if upperGuess = targetWord s
           then (sendAlert \<lparr>title = None, message = ''Congratulations! You've won! '',
                             variant = ''success''\<rparr> s1)\<lparr>isGameOver := True\<rparr>
           else s1)"

text \<open>\<open>handleSubmitGuess\<close> of the first component of \<open>part_001\<close>: the alerts carry a title.\<close>

definition handleSubmitGuess_default :: "(string \<Rightarrow> string) \<Rightarrow> game \<Rightarrow> game" where
  "handleSubmitGuess_default toUpperCase s =
     (if length (currentGuess s) \<noteq> 5 then
        sendAlert \<lparr>title = Some ''Invalid Guess'', message = ''Guess must be 5 letters!'',
                   variant = ''danger''\<rparr> s
      else if length (guesses s) \<ge> 5 then
        sendAlert \<lparr>title = Some ''Game Over'', message = ''You've used all 5 guesses.'',
                   variant = ''danger''\<rparr> s
      else
        let upperGuess = toUpperCase (currentGuess s);
            s1 = s\<lparr>guesses := guesses s @ [upperGuess], currentGuess := ''''\<rparr>
        in if upperGuess = targetWord s
           then (sendAlert \<lparr>title = Some ''Congratulations!'', message = ''You've won! '',
                             variant = ''success''\<rparr> s1)\<lparr>isGameOver := True\<rparr>
           else s1)"

text \<open>
  \<open>handleSubmitGuess\<close> of the second component of \<open>part_001\<close> (the one of \<open>part_000\<close> has the
  same text): a guard on the secret word comes first.
\<close>

definition handleSubmitGuess_offline :: "(string \<Rightarrow> string) \<Rightarrow> game \<Rightarrow> game" where
  "handleSubmitGuess_offline toUpperCase s =
     (if targetWord s = '''' then
        sendAlert \<lparr>title = Some ''Game Not Ready'', message = ''Please wait for the word to load.'',
                   variant = ''warning''\<rparr> s
      else if length (currentGuess s) \<noteq> 5 then
        sendAlert \<lparr>title = Some ''Invalid Guess'', message = ''Guess must be 5 letters!'',
                   variant = ''danger''\<rparr> s
      else if length (guesses s) \<ge> 5 then
        sendAlert \<lparr>title = Some ''Game Over'', message = ''You've used all 5 guesses.'',
                   variant = ''danger''\<rparr> s
      else
        let upperGuess = toUpperCase (currentGuess s);
            s1 = s\<lparr>guesses := guesses s @ [upperGuess], currentGuess := ''''\<rparr>
        in if upperGuess = targetWord s
           then (sendAlert \<lparr>title = Some ''Congratulations!'', message = ''You've won! '',
                             variant = ''success''\<rparr> s1)\<lparr>isGameOver := True\<rparr>
           else s1)"

subsection \<open>Acquiring the word\<close>

text \<open>
  A promise that has settled: rejected with an error (its \<open>message\<close>) or fulfilled with a
  value.
\<close>

datatype 'a settled = Rejected string | Fulfilled 'a

text \<open>
  The body of a response, once parsed: the three properties the code reads, each absent
  (\<open>None\<close>) or a string. A response whose \<open>json()\<close> fails has a rejected body.
\<close>

record json_object =
  error_prop :: "string option"
  message_prop :: "string option"
  word_prop :: "string option"

record response =
  ok :: bool
  status :: nat
  statusText :: string
  json :: "json_object settled"

text \<open>JavaScript's truthiness of a property that is absent or a string.\<close>

definition truthy :: "string option \<Rightarrow> bool" where
  "truthy v = (case v of None \<Rightarrow> False | Some t \<Rightarrow> t \<noteq> '''')"

text \<open>\<open>a || b\<close> where \<open>a\<close> is absent or a string and \<open>b\<close> is a string.\<close>

definition js_or :: "string option \<Rightarrow> string \<Rightarrow> string" where
  "js_or a b = (case a of None \<Rightarrow> b | Some t \<Rightarrow> if t = '''' then b else t)"

text \<open>\<open>String.prototype.includes\<close>: the second string occurs in the first.\<close>

fun js_includes :: "string \<Rightarrow> string \<Rightarrow> bool" where
  "js_includes [] sub = (sub = [])"
| "js_includes (c # cs) sub = (take (length sub) (c # cs) = sub \<or> js_includes cs sub)"

text \<open>The decimal digits of a number, as a template literal prints them.\<close>

fun show_nat :: "nat \<Rightarrow> string" where
  "show_nat n = (if n < 10 then [''0123456789'' ! n]
                 else show_nat (n div 10) @ [''0123456789'' ! (n mod 10)])"

text \<open>
  The \<open>try\<close> block of \<open>fetchNewWord\<close> in \<open>GameBoard.tsx\<close>, after \<open>hubspot.fetch\<close> has settled:
  the error thrown (\<open>Inl\<close>, its message) or the word in upper case (\<open>Inr\<close>).
\<close>

definition fetched_word :: "(string \<Rightarrow> string) \<Rightarrow> response settled \<Rightarrow> string + string" where
  "fetched_word toUpperCase outcome =
     (case outcome of
        Rejected m \<Rightarrow> Inl m
      | Fulfilled response \<Rightarrow>
          if \<not> ok response then
            (let errorMessage = ''HTTP '' @ show_nat (status response)
             in case json response of
                  Rejected _ \<Rightarrow> Inl errorMessage
                | Fulfilled errorData \<Rightarrow>
                    Inl (js_or (error_prop errorData) (js_or (message_prop errorData) errorMessage)))
          else
            (case json response of
               Rejected m \<Rightarrow> Inl m
             | Fulfilled data \<Rightarrow>
                 (case word_prop data of
                    None \<Rightarrow> Inl ''No word received from server''
                  | Some word \<Rightarrow>
                      if word = '''' then Inl ''No word received from server''
                      else Inr (toUpperCase word))))"

text \<open>The message for the user that the \<open>catch\<close> block picks from the error's message.\<close>

definition userMessage :: "string \<Rightarrow> string" where
  "userMessage m =
     (if js_includes m ''404'' then ''Word service not found. Please contact support.''
      else if js_includes m ''500'' then ''Word service is temporarily down. Please try again.''
      else if js_includes m ''Failed to fetch'' then ''Network error. Please check your connection.''
      else if js_includes m ''No word received'' then ''Invalid response from word service.''
      else ''Failed to fetch new word.'')"

text \<open>
  \<open>fetchNewWord\<close> is asynchronous. Up to its first \<open>await\<close> it runs with the caller: it sets
  the loading flag and issues the request.
\<close>

definition fetchNewWord_begin :: "game \<Rightarrow> game" where
  "fetchNewWord_begin s = s\<lparr>isLoading := True, pending := Suc (pending s)\<rparr>"

text \<open>
  The rest of \<open>fetchNewWord\<close> in \<open>GameBoard.tsx\<close> runs when the request has settled: the
  word is stored, or the \<open>catch\<close> block alerts the user and stores REACT; \<open>finally\<close> clears
  the loading flag.
\<close>

definition fetchNewWord_settle :: "(string \<Rightarrow> string) \<Rightarrow> response settled \<Rightarrow> game \<Rightarrow> game" where
  "fetchNewWord_settle toUpperCase outcome s =
     (case fetched_word toUpperCase outcome of
        Inr upperWord \<Rightarrow> s\<lparr>targetWord := upperWord, isLoading := False, pending := pending s - 1\<rparr>
      | Inl m \<Rightarrow>
          (sendAlert \<lparr>title = None, message = userMessage m, variant = ''error''\<rparr> s)
            \<lparr>targetWord := ''REACT'', isLoading := False, pending := pending s - 1\<rparr>)"

text \<open>
  \<open>getRandomWord\<close> of \<open>Wordle.tsx\<close>, which the parent passes to the other versions: it
  resolves to the parsed body, or rejects (its \<open>catch\<close> block throws the error again).
\<close>

definition getRandomWord :: "response settled \<Rightarrow> json_object option settled" where
  "getRandomWord outcome =
     (case outcome of
        Rejected m \<Rightarrow> Rejected m
      | Fulfilled response \<Rightarrow>
          if \<not> ok response then
            Rejected (''HTTP error! status: '' @ show_nat (status response) @ '' ''
                      @ statusText response)
          else
            (case json response of
               Rejected m \<Rightarrow> Rejected m
             | Fulfilled data \<Rightarrow>
                 if \<not> truthy (word_prop data)
                 then Rejected ''Invalid response: missing word property''
                 else Fulfilled (Some data)))"

text \<open>
  The \<open>try\<close> block of \<open>fetchNewWord\<close> in the versions that call the parent's function, after
  \<open>getRandomWord?.('normal')\<close> has settled. The value \<open>None\<close> is \<open>undefined\<close> (no function
  was passed, or it resolved to nothing), which \<open>data?.word\<close> lets through.
\<close>

definition received_word ::
  "(string \<Rightarrow> string) \<Rightarrow> json_object option settled \<Rightarrow> string + string" where
  "received_word toUpperCase outcome =
     (case outcome of
        Rejected m \<Rightarrow> Inl m
      | Fulfilled data \<Rightarrow>
          (case data of
             None \<Rightarrow> Inl ''No word received from server''
           | Some d \<Rightarrow>
               (case word_prop d of
                  None \<Rightarrow> Inl ''No word received from server''
                | Some word \<Rightarrow>
                    if word = '''' then Inl ''No word received from server''
                    else Inr (toUpperCase word))))"

text \<open>
  The rest of \<open>fetchNewWord\<close> in \<open>part_000\<close>: "Don't set a fallback word - let the user
  retry".
\<close>

definition fetchNewWord_settle_retry ::
  "(string \<Rightarrow> string) \<Rightarrow> json_object option settled \<Rightarrow> game \<Rightarrow> game" where
  "fetchNewWord_settle_retry toUpperCase outcome s =
     (case received_word toUpperCase outcome of
        Inr upperWord \<Rightarrow> s\<lparr>targetWord := upperWord, isLoading := False, pending := pending s - 1\<rparr>
      | Inl m \<Rightarrow>
          (sendAlert \<lparr>title = Some ''Error'', message = userMessage m, variant = ''error''\<rparr> s)
            \<lparr>isLoading := False, pending := pending s - 1\<rparr>)"

definition FALLBACK_WORDS :: "string list" where
  "FALLBACK_WORDS =
     [''REACT'', ''WORLD'', ''GAMES'', ''HAPPY'', ''LEARN'', ''BUILD'', ''SHARE'', ''DREAM'',
      ''PEACE'', ''LOVE'', ''HOPE'', ''JOY'', ''FUN'', ''TEAM'', ''CODE'', ''TECH'']"

text \<open>
  The rest of \<open>fetchNewWord\<close> in the second component of \<open>part_001\<close>. \<open>random\<close> is the value
  of \<open>Math.random()\<close>, a number from 0 up to but not including 1, so that the index lies
  within the list; the theorems state that range as a hypothesis.
\<close>

definition fetchNewWord_settle_offline ::
  "(string \<Rightarrow> string) \<Rightarrow> json_object option settled \<Rightarrow> real \<Rightarrow> game \<Rightarrow> game" where
  "fetchNewWord_settle_offline toUpperCase outcome random s =
     (case received_word toUpperCase outcome of
        Inr upperWord \<Rightarrow> s\<lparr>targetWord := upperWord, isLoading := False, pending := pending s - 1\<rparr>
      | Inl m \<Rightarrow>
          let randomFallback = FALLBACK_WORDS ! nat \<lfloor>random * real (length FALLBACK_WORDS)\<rfloor>
          in (sendAlert
                \<lparr>title = Some ''Using Offline Mode'',
                 message = ''Couldn't fetch a random word from the API ('' @ m @ ''), using ''
                           @ [CHR 0x22] @ randomFallback @ [CHR 0x22]
                           @ '' instead. Check console for details.'',
                 variant = ''warning''\<rparr>
                (s\<lparr>targetWord := randomFallback\<rparr>))
               \<lparr>isLoading := False, pending := pending s - 1\<rparr>)"

text \<open>
  The failures of the acquisition that the specification names: the request fails, the
  status is not a success, the body cannot be read, or the word is missing or empty.
\<close>

definition acquisition_fails :: "response settled \<Rightarrow> bool" where
  "acquisition_fails outcome =
     (case outcome of
        Rejected _ \<Rightarrow> True
      | Fulfilled response \<Rightarrow>
          \<not> ok response \<or>
          (case json response of Rejected _ \<Rightarrow> True | Fulfilled data \<Rightarrow> \<not> truthy (word_prop data)))"

subsection \<open>Reset\<close>

text \<open>\<open>resetGame\<close>, the same in the four versions.\<close>

definition resetGame :: "game \<Rightarrow> game" where
  "resetGame s = fetchNewWord_begin (s\<lparr>guesses := [], currentGuess := '''', isGameOver := False\<rparr>)"

subsection \<open>The rendered component\<close>

text \<open>
  What the user and the network can do to the component: type into the input (its
  \<open>onChange\<close> is \<open>setCurrentGuess\<close>), press the one button that is rendered, and let a
  pending request settle.
\<close>

datatype 'o event = Input string | Button | Settled 'o

text \<open>
  \<open>GameBoard.tsx\<close>: the input is read-only once the game has ended; the button is "Reset
  Game" then, disabled while a word is loading, and "Guess" before. The effect of the
  first render calls \<open>fetchNewWord\<close>.
\<close>

definition ui_step :: "(string \<Rightarrow> string) \<Rightarrow> response settled event \<Rightarrow> game \<Rightarrow> game" where
  "ui_step toUpperCase e s =
     (case e of
        Input text \<Rightarrow> if gameEnded s then s else s\<lparr>currentGuess := text\<rparr>
      | Button \<Rightarrow>
          if gameEnded s then (if isLoading s then s else resetGame s)
          else handleSubmitGuess toUpperCase s
      | Settled outcome \<Rightarrow>
          if pending s = 0 then s else fetchNewWord_settle toUpperCase outcome s)"

definition mount :: game where
  "mount = fetchNewWord_begin (initial ''REACT'')"

definition run :: "(string \<Rightarrow> string) \<Rightarrow> response settled event list \<Rightarrow> game" where
  "run toUpperCase events = foldl (\<lambda>s e. ui_step toUpperCase e s) mount events"

text \<open>
  The second component of \<open>part_001\<close>: the input is also read-only and the button "Guess"
  also disabled until a word is there and no request is loading. A settling request comes
  with the value of \<open>Math.random()\<close> that its \<open>catch\<close> block would draw.
\<close>

definition ui_step_offline ::
  "(string \<Rightarrow> string) \<Rightarrow> (json_object option settled \<times> real) event \<Rightarrow> game \<Rightarrow> game" where
  "ui_step_offline toUpperCase e s =
     (case e of
        Input text \<Rightarrow> if gameEnded s \<or> \<not> gameReady s then s else s\<lparr>currentGuess := text\<rparr>
      | Button \<Rightarrow>
          if gameEnded s then (if isLoading s then s else resetGame s)
          else if \<not> gameReady s \<or> isLoading s then s
          else handleSubmitGuess_offline toUpperCase s
      | Settled (outcome, random) \<Rightarrow>
          if pending s = 0 then s
          else fetchNewWord_settle_offline toUpperCase outcome random s)"

definition mount_offline :: game where
  "mount_offline = fetchNewWord_begin (initial '''')"

definition run_offline ::
  "(string \<Rightarrow> string) \<Rightarrow> (json_object option settled \<times> real) event list \<Rightarrow> game" where
  "run_offline toUpperCase events = foldl (\<lambda>s e. ui_step_offline toUpperCase e s) mount_offline events"

subsection \<open>Inputs for the examples\<close>

text \<open>
  A stand-in for \<open>toUpperCase\<close> in the examples: it agrees with JavaScript on strings of
  ASCII characters, which are all the examples use.
\<close>

definition upper_ascii :: "string \<Rightarrow> string" where
  "upper_ascii =
     map (\<lambda>c. case map_of (zip ''abcdefghijklmnopqrstuvwxyz'' ''ABCDEFGHIJKLMNOPQRSTUVWXYZ'') c of
                 None \<Rightarrow> c | Some u \<Rightarrow> u)"

text \<open>A response with status 200 whose body holds the given word.\<close>

definition word_response :: "string \<Rightarrow> response" where
  "word_response word =
     \<lparr>ok = True, status = 200, statusText = ''OK'',
      json = Fulfilled \<lparr>error_prop = None, message_prop = None, word_prop = Some word\<rparr>\<rparr>"

text \<open>
  Five guesses that miss the word REACT, typed and submitted one after the other once the
  word has arrived.
\<close>

definition five_misses :: "response settled event list" where
  "five_misses =
     [Settled (Fulfilled (word_response ''react'')),
      Input ''world'', Button, Input ''games'', Button, Input ''happy'', Button,
      Input ''learn'', Button, Input ''build'', Button]"

text \<open>The first render of the component of \<open>part_000\<close>, whose secret word starts empty.\<close>

definition mount_retry :: game where
  "mount_retry = fetchNewWord_begin (initial '''')"

subsection \<open>Invariants\<close>

text \<open>
  At most five guesses are recorded, at most one request is pending, and the loading flag
  is set exactly while one is.
\<close>

definition board_inv :: "game \<Rightarrow> bool" where
  "board_inv s = (length (guesses s) \<le> 5 \<and> pending s \<le> 1 \<and> (isLoading s \<longleftrightarrow> pending s = 1))"

section \<open>The evaluation follows the two-pass rule\<close>

lemma first_pass_marks: "fst (first_pass g s a) = map (\<lambda>(x, y). x = y) (zip g s)"
  by (induction g s a rule: first_pass.induct) (auto split: prod.splits simp: fun_upd_def)

lemma first_pass_avail:
  "snd (first_pass g s a) L = a L - length (filter (\<lambda>(x, y). x = y \<and> x = L) (zip g s))"
  by (induction g s a rule: first_pass.induct) (auto split: prod.splits simp: fun_upd_def)

lemma second_pass_length: "length (second_pass g ms a) = min (length g) (length ms)"
  by (induction g ms a rule: second_pass.induct) (auto simp: fun_upd_def)

lemma second_pass_nth:
  "length ms = length g \<Longrightarrow> i < length g \<Longrightarrow>
   second_pass g ms a ! i =
     (if ms ! i then Correct
      else if length (filter (\<lambda>(c, k). c = g ! i \<and> k = Present) (take i (zip g (second_pass g ms a)))) < a (g ! i)
      then Present else Absent)"
proof (induction g ms a arbitrary: i rule: second_pass.induct)
  case (1 g gs m marks avail)
  show ?case
  proof (cases i)
    case 0
    then show ?thesis by simp
  next
    case (Suc j)
    with "1.prems" have j: "length marks = length gs" "j < length gs" by simp_all
    show ?thesis
    proof (cases m)
      case True
      with "1.IH"(1)[OF True j] Suc show ?thesis by simp
    next
      case False
      show ?thesis
      proof (cases "avail g > 0")
        case True
        with "1.IH"(2)[OF False True j] Suc False show ?thesis by (auto simp: fun_upd_def)
      next
        case F2: False
        with "1.IH"(3)[OF False F2 j] Suc False show ?thesis by (auto simp: fun_upd_def)
      qed
    qed
  qed
qed simp_all

lemma second_pass_Correct:
  "length ms = length g \<Longrightarrow>
   filter (\<lambda>(c, k). c = L \<and> k = Correct) (zip g (second_pass g ms a))
   = map (\<lambda>(c, m). (c, Correct)) (filter (\<lambda>(c, m). c = L \<and> m) (zip g ms))"
  by (induction g ms a rule: second_pass.induct) (auto simp: fun_upd_def)

lemma second_pass_Present:
  "length ms = length g \<Longrightarrow>
   length (filter (\<lambda>(c, k). c = L \<and> k = Present) (zip g (second_pass g ms a)))
   = min (a L) (length (filter (\<lambda>(c, m). c = L \<and> \<not> m) (zip g ms)))"
  by (induction g ms a rule: second_pass.induct) (auto simp: fun_upd_def)

lemma matched_marks:
  "length (filter (\<lambda>(c, m). c = L \<and> m) (zip g (map (\<lambda>(x, y). x = y) (zip g s))))
   = length (filter (\<lambda>(x, y). x = y \<and> x = L) (zip g s))"
  by (induction g s rule: list_induct2') auto

lemma unmatched_marks:
  "length g = length s \<Longrightarrow>
   length (filter (\<lambda>(c, m). c = L \<and> \<not> m) (zip g (map (\<lambda>(x, y). x = y) (zip g s))))
   + length (filter (\<lambda>(x, y). x = y \<and> x = L) (zip g s)) = count_list g L"
  by (induction g s rule: list_induct2) auto

lemma matched_le_secret:
  "length (filter (\<lambda>(x, y). x = y \<and> x = L) (zip g s)) \<le> count_list s L"
  by (induction g s rule: list_induct2') auto

lemma evaluate_unfold:
  "evaluate g s = second_pass g (map (\<lambda>(x, y). x = y) (zip g s))
      (\<lambda>L. count_list s L - length (filter (\<lambda>(x, y). x = y \<and> x = L) (zip g s)))"
proof -
  obtain ms a where fp: "first_pass g s (count_list s) = (ms, a)" by (cases "first_pass g s (count_list s)")
  have "ms = map (\<lambda>(x, y). x = y) (zip g s)" using first_pass_marks[of g s "count_list s"] fp by simp
  moreover have "a = (\<lambda>L. count_list s L - length (filter (\<lambda>(x, y). x = y \<and> x = L) (zip g s)))"
    using first_pass_avail[of g s "count_list s"] fp by auto
  ultimately show ?thesis by (simp add: evaluate_def fp)
qed

lemma evaluate_length: "length g = length s \<Longrightarrow> length (evaluate g s) = length g"
  by (simp add: evaluate_unfold second_pass_length)

lemma count_Correct:
  assumes "length g = length s"
  shows "length (filter (\<lambda>(c, k). c = L \<and> k = Correct) (zip g (evaluate g s)))
         = length (filter (\<lambda>(x, y). x = y \<and> x = L) (zip g s))"
  using assms by (simp add: evaluate_unfold second_pass_Correct matched_marks)

lemma count_Present:
  assumes "length g = length s"
  shows "length (filter (\<lambda>(c, k). c = L \<and> k = Present) (zip g (evaluate g s)))
         = min (count_list s L - length (filter (\<lambda>(x, y). x = y \<and> x = L) (zip g s)))
               (count_list g L - length (filter (\<lambda>(x, y). x = y \<and> x = L) (zip g s)))"
  using assms unmatched_marks[OF assms, of L]
  by (simp add: evaluate_unfold second_pass_Present)

lemma evaluate_nth:
  assumes len: "length g = length s" and i: "i < length g"
  shows "evaluate g s ! i =
        (if g ! i = s ! i then Correct
         else if decrements_before g s i (g ! i) < count_list s (g ! i) then Present
         else Absent)"
proof -
  let ?ms = "map (\<lambda>(x, y). x = y) (zip g s)"
  let ?a = "\<lambda>L. count_list s L - length (filter (\<lambda>(x, y). x = y \<and> x = L) (zip g s))"
  have m: "?ms ! i = (g ! i = s ! i)" using len i by simp
  have "evaluate g s ! i =
     (if ?ms ! i then Correct
      else if length (filter (\<lambda>(c, k). c = g ! i \<and> k = Present) (take i (zip g (evaluate g s)))) < ?a (g ! i)
      then Present else Absent)"
    unfolding evaluate_unfold using len i by (intro second_pass_nth) simp_all
  then show ?thesis
    unfolding decrements_before_def count_Correct[OF len] m by (auto simp: less_diff_conv add.commute)
qed

lemma split_marks:
  "length (filter (\<lambda>(c, k). c = L \<and> k \<in> {Correct, Present}) xs)
   = length (filter (\<lambda>(c, k). c = L \<and> k = Correct) xs) + length (filter (\<lambda>(c, k). c = L \<and> k = Present) xs)"
  by (induction xs) auto

lemma all_marks:
  "length (filter (\<lambda>(c, k). c = L \<and> k \<in> {Correct, Present}) xs)
   + length (filter (\<lambda>(c, k). c = L \<and> k \<in> {Absent}) xs) = count_list (map fst xs) L"
proof (induction xs)
  case (Cons x xs)
  then show ?case by (cases x; cases "snd x") auto
qed simp

lemma marked_bound:
  assumes len: "length g = length s"
  shows "marked_count g s L {Correct, Present} \<le> count_list s L"
  unfolding marked_count_def split_marks count_Correct[OF len] count_Present[OF len]
  using matched_le_secret[of L g s] by simp

lemma marked_total:
  assumes len: "length g = length s"
  shows "marked_count g s L {Correct, Present} + marked_count g s L {Absent} = count_list g L"
  unfolding marked_count_def all_marks using evaluate_length[OF len] by simp

lemma marked_exact:
  assumes len: "length g = length s"
  shows "marked_count g s L {Correct, Present} = min (count_list s L) (count_list g L)"
  unfolding marked_count_def split_marks count_Correct[OF len] count_Present[OF len]
  using matched_le_secret[of L g s] unmatched_marks[OF len, of L] by simp

text \<open>
  Claim C1. For a guess and a secret of five characters each, \<open>evaluate\<close> returns exactly
  five classifications, and they are the ones of the two-pass rule: a position whose letters
  agree is Correct (and has taken one unit of that letter's available count); any other
  position is Present when the decrements made so far for its letter, by all Correct
  positions and by the Present positions before it, are fewer than the letter's occurrences
  in the secret, and Absent otherwise.
\<close>

theorem evaluate_two_pass:
  assumes "length guess = 5" and "length secret = 5"
  shows "length (evaluate guess secret) = 5 \<and>
         (\<forall>i<5. evaluate guess secret ! i =
            (if guess ! i = secret ! i then Correct
             else if decrements_before guess secret i (guess ! i) < count_list secret (guess ! i)
             then Present else Absent))"
  using assms evaluate_length[of guess secret] evaluate_nth[of guess secret] by simp

theorem evaluate_two_pass_witness:
  "length ''ERASE'' = 5 \<and> length ''SPEED'' = 5 \<and>
   length (evaluate ''ERASE'' ''SPEED'') = 5 \<and>
   evaluate ''ERASE'' ''SPEED'' = [Present, Absent, Absent, Present, Present] \<and>
   decrements_before ''ERASE'' ''SPEED'' 4 (CHR ''E'') = 1 \<and>
   count_list ''SPEED'' (CHR ''E'') = 2 \<and>
   evaluate ''ERASE'' ''SPEED'' ! 4 = Present"
  using evaluate_two_pass[of "''ERASE''" "''SPEED''"]
  by (simp add: evaluate_def decrements_before_def)

text \<open>
  Claim C2. For a guess and a secret of five characters each and every letter \<open>L\<close>, the
  positions of the guess that hold \<open>L\<close> and are marked Correct or Present are at most as many
  as the occurrences of \<open>L\<close> in the secret. When the secret holds \<open>L\<close> once and the guess
  twice, exactly one of the two guessed occurrences is marked Correct or Present and the
  other one is marked Absent.
\<close>

theorem correct_present_bounded:
  assumes "length guess = 5" and "length secret = 5"
  shows "marked_count guess secret L {Correct, Present} \<le> count_list secret L \<and>
         (count_list secret L = 1 \<and> count_list guess L = 2 \<longrightarrow>
            marked_count guess secret L {Correct, Present} = 1 \<and>
            marked_count guess secret L {Absent} = 1)"
proof -
  have len: "length guess = length secret" using assms by simp
  show ?thesis
    using marked_bound[OF len, of L] marked_exact[OF len, of L] marked_total[OF len, of L]
    by auto
qed

theorem correct_present_bounded_witness:
  "length ''ELDER'' = 5 \<and> length ''REACT'' = 5 \<and>
   count_list ''REACT'' (CHR ''E'') = 1 \<and> count_list ''ELDER'' (CHR ''E'') = 2 \<and>
   marked_count ''ELDER'' ''REACT'' (CHR ''E'') {Correct, Present} = 1 \<and>
   marked_count ''ELDER'' ''REACT'' (CHR ''E'') {Absent} = 1 \<and>
   evaluate ''ELDER'' ''REACT'' = [Present, Absent, Absent, Absent, Present]"
  using correct_present_bounded[of "''ELDER''" "''REACT''" "CHR ''E''"]
  by (simp add: evaluate_def)

section \<open>Submitting and resetting\<close>

lemmas submit_defs = handleSubmitGuess_def handleSubmitGuess_default_def handleSubmitGuess_offline_def
  sendAlert_def roundStatus_def

text \<open>
  Claim C3. With fewer than five guesses recorded, submitting an input of five characters
  records its upper-case form. If that equals the secret word the round is Won, and the
  game has ended. If it does not and the round was in progress, the round stays
  InProgress unless the history thereby reaches five entries, in which case it is Lost.
  From a round in progress, Won is reached exactly when the submitted guess equals the
  secret word.
\<close>

theorem submit_decides_status:
  assumes "length (guesses s) < 5" and "length (currentGuess s) = 5"
  shows "guesses (handleSubmitGuess toUpperCase s) = guesses s @ [toUpperCase (currentGuess s)] \<and>
         (toUpperCase (currentGuess s) = targetWord s \<longrightarrow>
            roundStatus (handleSubmitGuess toUpperCase s) = Won \<and>
            gameEnded (handleSubmitGuess toUpperCase s)) \<and>
         (roundStatus s = InProgress \<and> toUpperCase (currentGuess s) \<noteq> targetWord s \<longrightarrow>
            roundStatus (handleSubmitGuess toUpperCase s) =
              (if length (guesses (handleSubmitGuess toUpperCase s)) = 5 then Lost else InProgress)) \<and>
         (roundStatus s = InProgress \<longrightarrow>
            (roundStatus (handleSubmitGuess toUpperCase s) = Won
             \<longleftrightarrow> toUpperCase (currentGuess s) = targetWord s))"
  using assms by (auto simp: submit_defs gameEnded_def Let_def split: if_splits)

theorem submit_decides_status_witness:
  "length (guesses ((initial ''REACT'')\<lparr>currentGuess := ''react''\<rparr>)) < 5 \<and>
   length (currentGuess ((initial ''REACT'')\<lparr>currentGuess := ''react''\<rparr>)) = 5 \<and>
   upper_ascii ''react'' = ''REACT'' \<and>
   roundStatus (handleSubmitGuess upper_ascii ((initial ''REACT'')\<lparr>currentGuess := ''react''\<rparr>)) = Won \<and>
   gameEnded (handleSubmitGuess upper_ascii ((initial ''REACT'')\<lparr>currentGuess := ''react''\<rparr>)) \<and>
   roundStatus ((initial ''REACT'')\<lparr>currentGuess := ''world''\<rparr>) = InProgress \<and>
   upper_ascii ''world'' \<noteq> ''REACT'' \<and>
   roundStatus (handleSubmitGuess upper_ascii ((initial ''REACT'')\<lparr>currentGuess := ''world''\<rparr>)) = InProgress \<and>
   roundStatus (handleSubmitGuess upper_ascii
     ((initial ''REACT'')\<lparr>currentGuess := ''world'',
                            guesses := [''GAMES'', ''HAPPY'', ''LEARN'', ''BUILD'']\<rparr>)) = Lost"
  using submit_decides_status[of "(initial ''REACT'')\<lparr>currentGuess := ''react''\<rparr>" upper_ascii]
    submit_decides_status[of "(initial ''REACT'')\<lparr>currentGuess := ''world''\<rparr>" upper_ascii]
    submit_decides_status[of "(initial ''REACT'')\<lparr>currentGuess := ''world'',
                            guesses := [''GAMES'', ''HAPPY'', ''LEARN'', ''BUILD'']\<rparr>" upper_ascii]
  by (simp add: initial_def upper_ascii_def submit_defs gameEnded_def Let_def)

text \<open>
  Claim C4. An input whose length is not five is rejected with the alert "Guess must be 5
  letters!", and nothing but the list of alerts changes: the guess history, the secret
  word and the round status stay as they were. This holds in \<open>GameBoard.tsx\<close>, and in the
  second component of \<open>part_001\<close> once the secret word is there.
\<close>

theorem wrong_length_rejected:
  assumes "length (currentGuess s) \<noteq> 5"
  shows "handleSubmitGuess toUpperCase s =
           s\<lparr>alerts := alerts s @ [\<lparr>title = None, message = ''Guess must be 5 letters!'',
                                      variant = ''danger''\<rparr>]\<rparr> \<and>
         guesses (handleSubmitGuess toUpperCase s) = guesses s \<and>
         targetWord (handleSubmitGuess toUpperCase s) = targetWord s \<and>
         roundStatus (handleSubmitGuess toUpperCase s) = roundStatus s \<and>
         (targetWord s \<noteq> '''' \<longrightarrow>
            handleSubmitGuess_offline toUpperCase s =
              s\<lparr>alerts := alerts s @ [\<lparr>title = Some ''Invalid Guess'',
                                         message = ''Guess must be 5 letters!'',
                                         variant = ''danger''\<rparr>]\<rparr> \<and>
            guesses (handleSubmitGuess_offline toUpperCase s) = guesses s \<and>
            targetWord (handleSubmitGuess_offline toUpperCase s) = targetWord s \<and>
            roundStatus (handleSubmitGuess_offline toUpperCase s) = roundStatus s)"
  using assms by (simp add: submit_defs)

theorem wrong_length_rejected_witness:
  "length (currentGuess ((initial ''REACT'')\<lparr>currentGuess := ''word''\<rparr>)) \<noteq> 5 \<and>
   targetWord ((initial ''REACT'')\<lparr>currentGuess := ''word''\<rparr>) \<noteq> '''' \<and>
   alerts (handleSubmitGuess upper_ascii ((initial ''REACT'')\<lparr>currentGuess := ''word''\<rparr>)) =
     [\<lparr>title = None, message = ''Guess must be 5 letters!'', variant = ''danger''\<rparr>] \<and>
   guesses (handleSubmitGuess upper_ascii ((initial ''REACT'')\<lparr>currentGuess := ''word''\<rparr>)) = [] \<and>
   alerts (handleSubmitGuess_offline upper_ascii ((initial ''REACT'')\<lparr>currentGuess := ''word''\<rparr>)) =
     [\<lparr>title = Some ''Invalid Guess'', message = ''Guess must be 5 letters!'', variant = ''danger''\<rparr>] \<and>
   guesses (handleSubmitGuess_offline upper_ascii ((initial ''REACT'')\<lparr>currentGuess := ''word''\<rparr>)) = []"
  using wrong_length_rejected[of "(initial ''REACT'')\<lparr>currentGuess := ''word''\<rparr>" upper_ascii]
  by (simp add: initial_def)

text \<open>
  Claim C10. When the input's length is not five and the history already holds five
  guesses, the alert is the one about the length, not the one about the game being over:
  the length is checked first (\<open>GameBoard.tsx\<close> and the first component of \<open>part_001\<close>).
\<close>

theorem length_check_first:
  assumes "length (currentGuess s) \<noteq> 5" and "length (guesses s) \<ge> 5"
  shows "alerts (handleSubmitGuess toUpperCase s) =
           alerts s @ [\<lparr>title = None, message = ''Guess must be 5 letters!'', variant = ''danger''\<rparr>] \<and>
         message (last (alerts (handleSubmitGuess toUpperCase s)))
           \<noteq> ''Game over! You've used all 5 guesses.'' \<and>
         alerts (handleSubmitGuess_default toUpperCase s) =
           alerts s @ [\<lparr>title = Some ''Invalid Guess'', message = ''Guess must be 5 letters!'',
                        variant = ''danger''\<rparr>] \<and>
         title (last (alerts (handleSubmitGuess_default toUpperCase s))) \<noteq> Some ''Game Over''"
  using assms by (simp add: submit_defs)

theorem length_check_first_witness:
  "length (currentGuess ((initial ''REACT'')\<lparr>currentGuess := ''words!'',
       guesses := [''WORLD'', ''GAMES'', ''HAPPY'', ''LEARN'', ''BUILD'']\<rparr>)) \<noteq> 5 \<and>
   length (guesses ((initial ''REACT'')\<lparr>currentGuess := ''words!'',
       guesses := [''WORLD'', ''GAMES'', ''HAPPY'', ''LEARN'', ''BUILD'']\<rparr>)) \<ge> 5 \<and>
   alerts (handleSubmitGuess upper_ascii ((initial ''REACT'')\<lparr>currentGuess := ''words!'',
       guesses := [''WORLD'', ''GAMES'', ''HAPPY'', ''LEARN'', ''BUILD'']\<rparr>)) =
     [\<lparr>title = None, message = ''Guess must be 5 letters!'', variant = ''danger''\<rparr>] \<and>
   alerts (handleSubmitGuess_default upper_ascii ((initial ''REACT'')\<lparr>currentGuess := ''words!'',
       guesses := [''WORLD'', ''GAMES'', ''HAPPY'', ''LEARN'', ''BUILD'']\<rparr>)) =
     [\<lparr>title = Some ''Invalid Guess'', message = ''Guess must be 5 letters!'', variant = ''danger''\<rparr>]"
  using length_check_first[of "(initial ''REACT'')\<lparr>currentGuess := ''words!'',
       guesses := [''WORLD'', ''GAMES'', ''HAPPY'', ''LEARN'', ''BUILD'']\<rparr>" upper_ascii]
  by (simp add: initial_def)

text \<open>
  Claim C8. From every state, \<open>resetGame\<close> empties the guess history, clears the input,
  resets the game-over flag, and calls \<open>fetchNewWord\<close>: the loading flag is set and one more
  request for a word is pending. The round is InProgress again, and the secret word that
  the request leaves when it settles comes from the outcome alone, not from the previous
  round.
\<close>

theorem reset_clears_round:
  "resetGame s = s\<lparr>guesses := [], currentGuess := '''', isGameOver := False, isLoading := True,
                    pending := Suc (pending s)\<rparr> \<and>
   guesses (resetGame s) = [] \<and> currentGuess (resetGame s) = '''' \<and>
   \<not> isGameOver (resetGame s) \<and> roundStatus (resetGame s) = InProgress \<and>
   pending (resetGame s) = pending s + 1 \<and>
   targetWord (fetchNewWord_settle toUpperCase outcome (resetGame s)) =
     (case fetched_word toUpperCase outcome of Inr upperWord \<Rightarrow> upperWord | Inl m \<Rightarrow> ''REACT'') \<and>
   targetWord (fetchNewWord_settle_offline toUpperCase outcome' random (resetGame s)) =
     (case received_word toUpperCase outcome' of
        Inr upperWord \<Rightarrow> upperWord
      | Inl m \<Rightarrow> FALLBACK_WORDS ! nat \<lfloor>random * real (length FALLBACK_WORDS)\<rfloor>)"
  by (simp add: resetGame_def fetchNewWord_begin_def roundStatus_def fetchNewWord_settle_def
      fetchNewWord_settle_offline_def sendAlert_def Let_def split: sum.splits)

theorem reset_clears_round_witness:
  "guesses (resetGame ((initial ''REACT'')\<lparr>guesses := [''WORLD'', ''REACT''], isGameOver := True\<rparr>)) = [] \<and>
   \<not> isGameOver (resetGame ((initial ''REACT'')\<lparr>guesses := [''WORLD'', ''REACT''], isGameOver := True\<rparr>)) \<and>
   isLoading (resetGame ((initial ''REACT'')\<lparr>guesses := [''WORLD'', ''REACT''], isGameOver := True\<rparr>)) \<and>
   pending (resetGame ((initial ''REACT'')\<lparr>guesses := [''WORLD'', ''REACT''], isGameOver := True\<rparr>)) = 1 \<and>
   targetWord (fetchNewWord_settle upper_ascii (Fulfilled (word_response ''world''))
     (resetGame ((initial ''REACT'')\<lparr>guesses := [''WORLD'', ''REACT''], isGameOver := True\<rparr>))) = ''WORLD''"
  using reset_clears_round[where s = "(initial ''REACT'')\<lparr>guesses := [''WORLD'', ''REACT''], isGameOver := True\<rparr>"
      and toUpperCase = upper_ascii and outcome = "Fulfilled (word_response ''world'')"
      and outcome' = "Rejected ''Failed to fetch''" and random = 0]
  by (simp add: initial_def resetGame_def fetchNewWord_begin_def fetchNewWord_settle_def
      fetched_word_def word_response_def truthy_def upper_ascii_def)

section \<open>What the rendered component reaches\<close>

lemma submit_guesses_le:
  "length (guesses s) \<le> 5 \<Longrightarrow> length (guesses (handleSubmitGuess up s)) \<le> 5"
  "length (guesses s) \<le> 5 \<Longrightarrow> length (guesses (handleSubmitGuess_offline up s)) \<le> 5"
  by (auto simp: submit_defs Let_def)

lemma submit_keeps_requests:
  "pending (handleSubmitGuess up s) = pending s" "isLoading (handleSubmitGuess up s) = isLoading s"
  "pending (handleSubmitGuess_offline up s) = pending s"
  "isLoading (handleSubmitGuess_offline up s) = isLoading s"
  by (auto simp: submit_defs Let_def)

lemma settle_fields:
  "guesses (fetchNewWord_settle up outcome s) = guesses s"
  "pending (fetchNewWord_settle up outcome s) = pending s - 1"
  "isLoading (fetchNewWord_settle up outcome s) = False"
  "guesses (fetchNewWord_settle_offline up outcome' r s) = guesses s"
  "pending (fetchNewWord_settle_offline up outcome' r s) = pending s - 1"
  "isLoading (fetchNewWord_settle_offline up outcome' r s) = False"
  by (auto simp: fetchNewWord_settle_def fetchNewWord_settle_offline_def sendAlert_def Let_def
      split: sum.splits)

lemma reset_fields:
  "guesses (resetGame s) = []" "pending (resetGame s) = Suc (pending s)" "isLoading (resetGame s)"
  by (simp_all add: resetGame_def fetchNewWord_begin_def)

lemma ui_step_inv: "board_inv s \<Longrightarrow> board_inv (ui_step up e s)"
  by (cases e)
     (auto simp: board_inv_def ui_step_def submit_guesses_le submit_keeps_requests settle_fields
        reset_fields)

lemma ui_step_offline_inv: "board_inv s \<Longrightarrow> board_inv (ui_step_offline up e s)"
  by (cases e)
     (auto simp: board_inv_def ui_step_offline_def submit_guesses_le submit_keeps_requests
        settle_fields reset_fields split: prod.splits)

lemma foldl_inv:
  assumes "\<And>s e. P s \<Longrightarrow> P (f s e)" and "P s"
  shows "P (foldl f s es)"
  using assms(2) by (induction es arbitrary: s) (simp_all add: assms(1))

lemma run_inv: "board_inv (run up events)"
proof -
  have "board_inv mount"
    by (simp add: board_inv_def mount_def fetchNewWord_begin_def initial_def)
  then show ?thesis
    unfolding run_def by (rule foldl_inv[rotated]) (rule ui_step_inv)
qed

lemma run_offline_inv: "board_inv (run_offline up events)"
proof -
  have "board_inv mount_offline"
    by (simp add: board_inv_def mount_offline_def fetchNewWord_begin_def initial_def)
  then show ?thesis
    unfolding run_offline_def by (rule foldl_inv[rotated]) (rule ui_step_offline_inv)
qed

lemmas run_defs = run_def ui_step_def mount_def fetchNewWord_begin_def initial_def
  fetchNewWord_settle_def fetched_word_def word_response_def truthy_def gameEnded_def
  upper_ascii_def resetGame_def

lemmas run_offline_defs = run_offline_def ui_step_offline_def mount_offline_def fetchNewWord_begin_def
  initial_def fetchNewWord_settle_offline_def received_word_def getRandomWord_def word_response_def
  truthy_def gameEnded_def gameReady_def upper_ascii_def resetGame_def FALLBACK_WORDS_def

text \<open>
  Claim C5 says that every submission with five guesses recorded is answered with "game
  over". After five misses the input is empty, and submitting is answered with the alert
  about the length instead.
\<close>

theorem full_history_short_input_counterexample:
  "length (guesses (run upper_ascii five_misses)) = 5 \<and>
   \<not> isGameOver (run upper_ascii five_misses) \<and>
   currentGuess (run upper_ascii five_misses) = '''' \<and>
   alerts (run upper_ascii five_misses) = [] \<and>
   alerts (handleSubmitGuess upper_ascii (run upper_ascii five_misses)) =
     [\<lparr>title = None, message = ''Guess must be 5 letters!'', variant = ''danger''\<rparr>] \<and>
   alerts (handleSubmitGuess upper_ascii (run upper_ascii five_misses)) \<noteq>
     [\<lparr>title = None, message = ''Game over! You've used all 5 guesses.'', variant = ''danger''\<rparr>]"
  by (simp add: five_misses_def run_defs submit_defs Let_def)

text \<open>
  Claim C5, amended. The guess history holds at most five entries in every state the
  rendered component reaches (\<open>GameBoard.tsx\<close> and the second component of \<open>part_001\<close>).
  With five entries recorded, submitting an input of five characters is rejected with
  the game-over alert and changes nothing but the list of alerts; if the round was not
  won, its status is Lost.
\<close>

theorem full_history_rejects:
  "length (guesses (run toUpperCase events)) \<le> 5 \<and>
   length (guesses (run_offline toUpperCase events')) \<le> 5 \<and>
   (length (guesses s) \<ge> 5 \<and> length (currentGuess s) = 5 \<longrightarrow>
      handleSubmitGuess toUpperCase s =
        s\<lparr>alerts := alerts s @ [\<lparr>title = None, message = ''Game over! You've used all 5 guesses.'',
                                   variant = ''danger''\<rparr>]\<rparr> \<and>
      (\<not> isGameOver s \<longrightarrow> roundStatus (handleSubmitGuess toUpperCase s) = Lost) \<and>
      (targetWord s \<noteq> '''' \<longrightarrow>
         handleSubmitGuess_offline toUpperCase s =
           s\<lparr>alerts := alerts s @ [\<lparr>title = Some ''Game Over'',
                                      message = ''You've used all 5 guesses.'',
                                      variant = ''danger''\<rparr>]\<rparr> \<and>
         (\<not> isGameOver s \<longrightarrow> roundStatus (handleSubmitGuess_offline toUpperCase s) = Lost)))"
  using run_inv[of toUpperCase events] run_offline_inv[of toUpperCase events']
  by (simp add: board_inv_def submit_defs)

theorem full_history_rejects_witness:
  "length (guesses ((run upper_ascii five_misses)\<lparr>currentGuess := ''tests''\<rparr>)) \<ge> 5 \<and>
   length (currentGuess ((run upper_ascii five_misses)\<lparr>currentGuess := ''tests''\<rparr>)) = 5 \<and>
   \<not> isGameOver ((run upper_ascii five_misses)\<lparr>currentGuess := ''tests''\<rparr>) \<and>
   targetWord ((run upper_ascii five_misses)\<lparr>currentGuess := ''tests''\<rparr>) \<noteq> '''' \<and>
   alerts (handleSubmitGuess upper_ascii ((run upper_ascii five_misses)\<lparr>currentGuess := ''tests''\<rparr>)) =
     [\<lparr>title = None, message = ''Game over! You've used all 5 guesses.'', variant = ''danger''\<rparr>] \<and>
   roundStatus (handleSubmitGuess upper_ascii ((run upper_ascii five_misses)\<lparr>currentGuess := ''tests''\<rparr>)) = Lost \<and>
   roundStatus (handleSubmitGuess_offline upper_ascii ((run upper_ascii five_misses)\<lparr>currentGuess := ''tests''\<rparr>)) = Lost"
  using full_history_rejects[of upper_ascii five_misses "[]"
      "(run upper_ascii five_misses)\<lparr>currentGuess := ''tests''\<rparr>"]
  by (simp add: five_misses_def run_defs run_offline_defs submit_defs Let_def)

text \<open>
  Claim C9 says that the result of a superseded request is discarded. \<open>fetchNewWord\<close>
  has no guard for that: if \<open>resetGame\<close> runs while the first request is pending, two
  requests are pending, and whichever settles last sets the secret word. Here the word of
  the new round, WORLD, is overwritten by HAPPY.
\<close>

theorem stale_word_overwrites_counterexample:
  "pending (resetGame mount) = 2 \<and>
   targetWord (fetchNewWord_settle upper_ascii (Fulfilled (word_response ''world''))
                 (resetGame mount)) = ''WORLD'' \<and>
   targetWord (fetchNewWord_settle upper_ascii (Fulfilled (word_response ''happy''))
                 (fetchNewWord_settle upper_ascii (Fulfilled (word_response ''world''))
                    (resetGame mount))) = ''HAPPY'' \<and>
   targetWord (fetchNewWord_settle upper_ascii (Fulfilled (word_response ''happy''))
                 (fetchNewWord_settle upper_ascii (Fulfilled (word_response ''world''))
                    (resetGame mount))) \<noteq> ''WORLD''"
  by (simp add: run_defs)

text \<open>
  Claim C9, amended. The component prevents the situation instead: in every state it
  reaches, at most one request is pending and the loading flag is set exactly then. The
  button resets the game only when the game has ended, and it is disabled while a request
  is pending, so pressing it then changes nothing; before the end of the game the button
  submits a guess.
\<close>

theorem one_request_at_a_time:
  "pending (run toUpperCase events) \<le> 1 \<and>
   isLoading (run toUpperCase events) = (pending (run toUpperCase events) = 1) \<and>
   (gameEnded (run toUpperCase events) \<and> pending (run toUpperCase events) = 1 \<longrightarrow>
      ui_step toUpperCase Button (run toUpperCase events) = run toUpperCase events) \<and>
   (\<not> gameEnded (run toUpperCase events) \<longrightarrow>
      ui_step toUpperCase Button (run toUpperCase events)
        = handleSubmitGuess toUpperCase (run toUpperCase events))"
  using run_inv[of toUpperCase events] by (simp add: board_inv_def ui_step_def)

theorem one_request_at_a_time_witness:
  "gameEnded (run upper_ascii [Input ''react'', Button]) \<and>
   pending (run upper_ascii [Input ''react'', Button]) = 1 \<and>
   isLoading (run upper_ascii [Input ''react'', Button]) \<and>
   ui_step upper_ascii Button (run upper_ascii [Input ''react'', Button])
     = run upper_ascii [Input ''react'', Button] \<and>
   \<not> gameEnded (run upper_ascii [Input ''world'']) \<and>
   guesses (ui_step upper_ascii Button (run upper_ascii [Input ''world''])) = [''WORLD'']"
  using one_request_at_a_time[of upper_ascii "[Input ''react'', Button]"]
    one_request_at_a_time[of upper_ascii "[Input ''world'']"]
  by (simp add: run_defs submit_defs Let_def)

section \<open>Acquiring the word\<close>

lemma random_index:
  assumes "0 \<le> random" and "random < 1"
  shows "nat \<lfloor>random * real (length FALLBACK_WORDS)\<rfloor> < length FALLBACK_WORDS"
proof -
  have len: "length FALLBACK_WORDS = 16" by (simp add: FALLBACK_WORDS_def)
  have "random * 16 < 16" using assms by simp
  then have "\<lfloor>random * 16\<rfloor> < 16" by (simp add: floor_less_iff)
  moreover have "0 \<le> \<lfloor>random * 16\<rfloor>" using assms by simp
  ultimately have "nat \<lfloor>random * 16\<rfloor> < 16" by linarith
  then show ?thesis unfolding len by simp
qed

lemma fails_fetched:
  "acquisition_fails outcome \<Longrightarrow> \<exists>m. fetched_word up outcome = Inl m"
  by (auto simp: acquisition_fails_def fetched_word_def truthy_def Let_def
      split: settled.splits option.splits)

lemma fails_received:
  "acquisition_fails outcome \<Longrightarrow> \<exists>m. received_word up (getRandomWord outcome) = Inl m"
  by (auto simp: acquisition_fails_def received_word_def getRandomWord_def truthy_def
      split: settled.splits option.splits)

lemma fallback_words_shape:
  "\<forall>w \<in> set FALLBACK_WORDS. w \<noteq> '''' \<and> set w \<subseteq> set ''ABCDEFGHIJKLMNOPQRSTUVWXYZ''"
  by (simp add: FALLBACK_WORDS_def)

text \<open>
  With a secret word that does not have five letters the round cannot be won, whatever is
  submitted, as long as \<open>toUpperCase\<close> keeps the length of its argument: only inputs of
  five characters are compared with the secret word.
\<close>

lemma short_secret_never_won:
  assumes "\<And>w. length (toUpperCase w) = length w" and "length (targetWord s) \<noteq> 5"
  shows "isGameOver (handleSubmitGuess_offline toUpperCase s) = isGameOver s"
proof (cases "length (currentGuess s) = 5")
  case True
  then have "length (toUpperCase (currentGuess s)) = 5" using assms(1) by simp
  then have "toUpperCase (currentGuess s) \<noteq> targetWord s" using assms(2) by auto
  then show ?thesis by (simp add: submit_defs Let_def)
next
  case False
  then show ?thesis by (simp add: submit_defs)
qed

text \<open>
  The word of a response is only checked for being there, in every version and in
  \<open>getRandomWord\<close> of \<open>Wordle.tsx\<close>: a response with the word "hi" leaves the secret word HI.
\<close>

lemma response_word_not_checked:
  "targetWord
     (run_offline upper_ascii [Settled (getRandomWord (Fulfilled (word_response ''hi'')), 0)]) = ''HI''"
  by (simp add: run_offline_defs)

text \<open>
  Claim C6. Whenever guessing is enabled, the secret word is to be an uppercase string of
  exactly five letters, also when it comes from the fallback list. The second component
  of \<open>part_001\<close> does not keep this: seven of the sixteen entries of \<open>FALLBACK_WORDS\<close> have
  three or four letters. When the first request fails and \<open>Math.random()\<close> is 0.7, the
  secret word is JOY; the game is ready and has not ended, and the button "Guess" records
  the guess HAPPY against a secret word of three letters.
\<close>

theorem fallback_secret_too_short:
  "map length FALLBACK_WORDS = [5, 5, 5, 5, 5, 5, 5, 5, 5, 4, 4, 3, 3, 4, 4, 4] \<and>
   targetWord
     (run_offline upper_ascii [Settled (getRandomWord (Rejected ''Failed to fetch''), 7 / 10)]) = ''JOY'' \<and>
   length (targetWord
     (run_offline upper_ascii [Settled (getRandomWord (Rejected ''Failed to fetch''), 7 / 10)])) = 3 \<and>
   gameReady
     (run_offline upper_ascii [Settled (getRandomWord (Rejected ''Failed to fetch''), 7 / 10)]) \<and>
   \<not> gameEnded
     (run_offline upper_ascii [Settled (getRandomWord (Rejected ''Failed to fetch''), 7 / 10)]) \<and>
   guesses
     (run_offline upper_ascii
        [Settled (getRandomWord (Rejected ''Failed to fetch''), 7 / 10), Input ''happy'', Button])
     = [''HAPPY''] \<and>
   \<not> isGameOver
     (run_offline upper_ascii
        [Settled (getRandomWord (Rejected ''Failed to fetch''), 7 / 10), Input ''happy'', Button])"
  by (simp add: run_offline_defs submit_defs Let_def)

text \<open>
  Claim C7 says that a failed acquisition always leaves a secret word from the fallback
  list. The component of \<open>part_000\<close> sets no fallback word: after the first request fails
  the secret word is still empty and the game is not ready.
\<close>

theorem no_fallback_counterexample:
  "acquisition_fails (Rejected ''Failed to fetch'') \<and>
   targetWord (fetchNewWord_settle_retry upper_ascii (getRandomWord (Rejected ''Failed to fetch''))
                 mount_retry) = '''' \<and>
   targetWord (fetchNewWord_settle_retry upper_ascii (getRandomWord (Rejected ''Failed to fetch''))
                 mount_retry) \<notin> set FALLBACK_WORDS \<and>
   \<not> gameReady (fetchNewWord_settle_retry upper_ascii (getRandomWord (Rejected ''Failed to fetch''))
                  mount_retry) \<and>
   alerts (fetchNewWord_settle_retry upper_ascii (getRandomWord (Rejected ''Failed to fetch''))
             mount_retry) =
     [\<lparr>title = Some ''Error'', message = ''Network error. Please check your connection.'',
       variant = ''error''\<rparr>]"
  by (simp add: acquisition_fails_def fetchNewWord_settle_retry_def getRandomWord_def
      received_word_def mount_retry_def fetchNewWord_begin_def initial_def gameReady_def
      sendAlert_def userMessage_def FALLBACK_WORDS_def)

text \<open>
  Claim C7, amended. When the acquisition fails, the failure ends in the component: the
  loading flag is cleared and exactly one alert is sent. \<open>GameBoard.tsx\<close> sets the secret
  word to REACT and the alert is of type error; the second component of \<open>part_001\<close> sets
  it to an entry of the fallback list and the alert is a warning; after a reset both are
  InProgress again, and the latter is ready for guesses. The component of \<open>part_000\<close>
  sends an alert of variant error and leaves the secret word as it was.
\<close>

theorem failed_acquisition_falls_back:
  assumes "acquisition_fails outcome" and "0 \<le> random" and "random < 1"
  shows "(\<exists>m. fetchNewWord_settle toUpperCase outcome s =
            s\<lparr>alerts := alerts s @ [\<lparr>title = None, message = userMessage m, variant = ''error''\<rparr>],
              targetWord := ''REACT'', isLoading := False, pending := pending s - 1\<rparr>) \<and>
         roundStatus (fetchNewWord_settle toUpperCase outcome (resetGame s)) = InProgress \<and>
         (\<exists>m w. w \<in> set FALLBACK_WORDS \<and>
            fetchNewWord_settle_offline toUpperCase (getRandomWord outcome) random s =
              s\<lparr>alerts := alerts s @
                   [\<lparr>title = Some ''Using Offline Mode'',
                     message = ''Couldn't fetch a random word from the API ('' @ m @ ''), using ''
                               @ [CHR 0x22] @ w @ [CHR 0x22]
                               @ '' instead. Check console for details.'',
                     variant = ''warning''\<rparr>],
                targetWord := w, isLoading := False, pending := pending s - 1\<rparr>) \<and>
         roundStatus (fetchNewWord_settle_offline toUpperCase (getRandomWord outcome) random
                        (resetGame s)) = InProgress \<and>
         gameReady (fetchNewWord_settle_offline toUpperCase (getRandomWord outcome) random
                      (resetGame s)) \<and>
         (\<exists>m. fetchNewWord_settle_retry toUpperCase (getRandomWord outcome) s =
            s\<lparr>alerts := alerts s @ [\<lparr>title = Some ''Error'', message = userMessage m,
                                       variant = ''error''\<rparr>],
              isLoading := False, pending := pending s - 1\<rparr>)"
proof -
  obtain m where m: "fetched_word toUpperCase outcome = Inl m"
    using fails_fetched[OF assms(1)] by blast
  obtain m' where m': "received_word toUpperCase (getRandomWord outcome) = Inl m'"
    using fails_received[OF assms(1)] by blast
  let ?w = "FALLBACK_WORDS ! nat \<lfloor>random * real (length FALLBACK_WORDS)\<rfloor>"
  have w: "?w \<in> set FALLBACK_WORDS" using random_index[OF assms(2,3)] by simp
  then have w_ne: "?w \<noteq> ''''" using fallback_words_shape by blast
  have 1: "fetchNewWord_settle toUpperCase outcome s =
            s\<lparr>alerts := alerts s @ [\<lparr>title = None, message = userMessage m, variant = ''error''\<rparr>],
              targetWord := ''REACT'', isLoading := False, pending := pending s - 1\<rparr>" for s
    by (simp add: fetchNewWord_settle_def m sendAlert_def)
  have 2: "fetchNewWord_settle_offline toUpperCase (getRandomWord outcome) random s =
              s\<lparr>alerts := alerts s @
                   [\<lparr>title = Some ''Using Offline Mode'',
                     message = ''Couldn't fetch a random word from the API ('' @ m' @ ''), using ''
                               @ [CHR 0x22] @ ?w @ [CHR 0x22]
                               @ '' instead. Check console for details.'',
                     variant = ''warning''\<rparr>],
                targetWord := ?w, isLoading := False, pending := pending s - 1\<rparr>" for s
    by (simp add: fetchNewWord_settle_offline_def m' sendAlert_def Let_def)
  have 3: "fetchNewWord_settle_retry toUpperCase (getRandomWord outcome) s =
            s\<lparr>alerts := alerts s @ [\<lparr>title = Some ''Error'', message = userMessage m',
                                       variant = ''error''\<rparr>],
              isLoading := False, pending := pending s - 1\<rparr>"
    by (simp add: fetchNewWord_settle_retry_def m' sendAlert_def)
  have 4: "roundStatus (fetchNewWord_settle toUpperCase outcome (resetGame s)) = InProgress"
    unfolding 1 by (simp add: roundStatus_def resetGame_def fetchNewWord_begin_def)
  have 5: "roundStatus (fetchNewWord_settle_offline toUpperCase (getRandomWord outcome) random
                        (resetGame s)) = InProgress"
    unfolding 2 by (simp add: roundStatus_def resetGame_def fetchNewWord_begin_def)
  have 6: "gameReady (fetchNewWord_settle_offline toUpperCase (getRandomWord outcome) random
                      (resetGame s))"
    unfolding 2 using w_ne by (simp add: gameReady_def)
  show ?thesis using 1 2 3 4 5 6 w by blast
qed

theorem failed_acquisition_falls_back_witness:
  "acquisition_fails (Fulfilled \<lparr>ok = False, status = 404, statusText = ''Not Found'',
                                  json = Rejected ''Unexpected end of JSON input''\<rparr>) \<and>
   (0 :: real) \<le> 1 / 10 \<and> (1 / 10 :: real) < 1 \<and>
   fetchNewWord_settle upper_ascii
     (Fulfilled \<lparr>ok = False, status = 404, statusText = ''Not Found'',
                 json = Rejected ''Unexpected end of JSON input''\<rparr>) mount =
     \<lparr>currentGuess = '''', guesses = [], targetWord = ''REACT'', isGameOver = False,
      isLoading = False, pending = 0,
      alerts = [\<lparr>title = None, message = ''Word service not found. Please contact support.'',
                 variant = ''error''\<rparr>]\<rparr> \<and>
   fetchNewWord_settle_offline upper_ascii
     (getRandomWord (Fulfilled \<lparr>ok = False, status = 404, statusText = ''Not Found'',
                                json = Rejected ''Unexpected end of JSON input''\<rparr>))
     (1 / 10) mount_offline =
     \<lparr>currentGuess = '''', guesses = [], targetWord = ''WORLD'', isGameOver = False,
      isLoading = False, pending = 0,
      alerts = [\<lparr>title = Some ''Using Offline Mode'',
                 message = ''Couldn't fetch a random word from the API (HTTP error! status: 404 Not Found), using ''
                           @ [CHR 0x22] @ ''WORLD'' @ [CHR 0x22]
                           @ '' instead. Check console for details.'',
                 variant = ''warning''\<rparr>]\<rparr>"
  using failed_acquisition_falls_back[of
      "Fulfilled \<lparr>ok = False, status = 404, statusText = ''Not Found'',
                  json = Rejected ''Unexpected end of JSON input''\<rparr>" "1 / 10" upper_ascii mount]
  by (simp add: acquisition_fails_def run_defs run_offline_defs sendAlert_def userMessage_def)

end
